theory Spec2Isabelle
  imports Complex_Main
begin

section \<open>JavaScript numbers\<close>

text \<open>
  The coordinates, speeds and altitudes that the Geolocation interface hands to the
  application are finite doubles; they are modelled as \<^typ>\<open>real\<close>, a nullable one as
  \<^typ>\<open>real option\<close>. Arithmetic is exact: the rounding of binary64 is not modelled.
  The one place of the program where a computation on finite numbers can leave the
  finite numbers is \<open>Math.sqrt\<close>, which returns \<open>NaN\<close> on a negative argument. A number that may be \<open>NaN\<close> has the type
  \<open>number\<close> below, with \<open>NaN\<close> as a constructor of its own, and the arithmetic on such
  numbers propagates \<open>NaN\<close> as JavaScript does. A division by zero gives an infinity or
  \<open>NaN\<close> in JavaScript, not a finite number either way; it is \<open>NaN\<close> here.
\<close>

datatype number = NaN | Num real

fun jsAdd :: "number \<Rightarrow> number \<Rightarrow> number" where
  "jsAdd (Num x) (Num y) = Num (x + y)"
| "jsAdd _ _ = NaN"

fun jsMul :: "number \<Rightarrow> number \<Rightarrow> number" where
  "jsMul (Num x) (Num y) = Num (x * y)"
| "jsMul _ _ = NaN"

fun jsDiv :: "number \<Rightarrow> number \<Rightarrow> number" where
  "jsDiv (Num x) (Num y) = (if y = 0 then NaN else Num (x / y))"
| "jsDiv _ _ = NaN"

definition Math_sqrt :: "real \<Rightarrow> number" where
  "Math_sqrt x = (if x < 0 then NaN else Num (sqrt x))"

text \<open>\<open>Math.atan2(y, x)\<close> on finite arguments (signed zeros are not distinguished).\<close>

definition atan2 :: "real \<Rightarrow> real \<Rightarrow> real" where
  "atan2 y x =
     (if 0 < x then arctan (y / x)
      else if x < 0 then (if 0 \<le> y then arctan (y / x) + pi else arctan (y / x) - pi)
      else if 0 < y then pi / 2
      else if y < 0 then - (pi / 2)
      else 0)"

fun Math_atan2 :: "number \<Rightarrow> number \<Rightarrow> number" where
  "Math_atan2 (Num y) (Num x) = Num (atan2 y x)"
| "Math_atan2 _ _ = NaN"

section \<open>types.ts\<close>

record RoutePoint =
  latitude :: real
  longitude :: real
  timestamp :: nat
  speed :: real
  altitude :: "real option"

text \<open>
  Of the statistics, \<open>totalDistance\<close> accumulates the results of
  \<open>calculateDistance\<close> and is the one field that a \<open>NaN\<close> can reach; \<open>duration\<close>
  counts ticks.
\<close>

record RideStats =
  totalDistance :: number
  avgSpeed :: real
  maxSpeed :: real
  duration :: int
  startTime :: "nat option"
  elevationGain :: real

record AIInsight =
  title :: string
  summary :: string
  recommendations :: "string list"

section \<open>utils/geo.ts\<close>

subsection \<open>calculateDistance\<close>

definition R :: real where
  "R = 6371000"

text \<open>
  The constant \<open>a\<close> of \<open>calculateDistance\<close>, from the two points, as an exact value.
  The double that the program computes differs from it by rounding and can exceed 1 for
  points that are nearly antipodal; \<open>1 - a\<close> is then negative and the distance is
  \<open>NaN\<close>. What is stated below about distances in general therefore never assumes that
  a distance is a number.
\<close>

definition haversineA :: "RoutePoint \<Rightarrow> RoutePoint \<Rightarrow> real" where
  "haversineA p1 p2 =
     (let phi1 = (latitude p1 * pi) / 180;
          phi2 = (latitude p2 * pi) / 180;
          dphi = ((latitude p2 - latitude p1) * pi) / 180;
          dlam = ((longitude p2 - longitude p1) * pi) / 180
      in sin (dphi / 2) * sin (dphi / 2) +
         cos phi1 * cos phi2 * sin (dlam / 2) * sin (dlam / 2))"

text \<open>The constant \<open>c\<close> of \<open>calculateDistance\<close>, from \<open>a\<close>.\<close>

definition centralAngle :: "real \<Rightarrow> number" where
  "centralAngle a = jsMul (Num 2) (Math_atan2 (Math_sqrt a) (Math_sqrt (1 - a)))"

definition calculateDistance :: "RoutePoint \<Rightarrow> RoutePoint \<Rightarrow> number" where
  "calculateDistance p1 p2 =
     (let a = haversineA p1 p2;
          c = centralAngle a
      in jsMul (Num R) c)"

subsection \<open>formatDuration\<close>

text \<open>
  The argument is a whole number of seconds. \<open>%\<close> is the remainder of the truncating
  division, \<open>Math.floor\<close> of a quotient is the flooring division of \<^typ>\<open>int\<close>.
\<close>

definition jsRem :: "int \<Rightarrow> int \<Rightarrow> int" where
  "jsRem a b = sgn a * (\<bar>a\<bar> mod \<bar>b\<bar>)"

definition digitChar :: "nat \<Rightarrow> char" where
  "digitChar d = ''0123456789'' ! d"

fun showNat :: "nat \<Rightarrow> string" where
  "showNat n = (if n < 10 then [digitChar n] else showNat (n div 10) @ [digitChar (n mod 10)])"

declare showNat.simps [simp del]

definition showInt :: "int \<Rightarrow> string" where
  "showInt i = (if i < 0 then CHR ''-'' # showNat (nat (- i)) else showNat (nat i))"

text \<open>An element of the mapped array is either a string or still a number.\<close>

datatype cell = Str string | Numb int

definition pad :: "int \<Rightarrow> cell" where
  "pad v = (if v < 10 then Str (''0'' @ showInt v) else Numb v)"

definition cellString :: "cell \<Rightarrow> string" where
  "cellString c = (case c of Str s \<Rightarrow> s | Numb v \<Rightarrow> showInt v)"

fun join :: "string \<Rightarrow> string list \<Rightarrow> string" where
  "join sep [] = []"
| "join sep [x] = x"
| "join sep (x # y # ys) = x @ sep @ join sep (y # ys)"

definition formatDuration :: "int \<Rightarrow> string" where
  "formatDuration seconds =
     (let h = seconds div 3600;
          m = jsRem seconds 3600 div 60;
          s = jsRem seconds 60;
          padded = map pad [h, m, s];
          kept = map fst (filter (\<lambda>(v, i). v \<noteq> Str ''00'' \<or> i > 0)
                            (zip padded [0 ..< length padded]))
      in join '':'' (map cellString kept))"

section \<open>services/gemini.ts\<close>

text \<open>
  \<open>getAIAnalysis\<close> writes a prompt from the statistics and a sample of the route and
  sends it to the external model. The request is modelled by the numbers that the
  prompt interpolates, before \<open>toFixed\<close> renders them.
\<close>

record SampledPoint =
  lat :: real
  lon :: real
  spd :: real

record AIRequest =
  distanceKm :: number
  avgSpeedKmh :: real
  maxSpeedKmh :: real
  durationMinutes :: real
  elevationGainM :: real
  sampledRoute :: "SampledPoint list"

definition sampleRoute :: "RoutePoint list \<Rightarrow> SampledPoint list" where
  "sampleRoute rt =
     map (\<lambda>p. \<lparr>lat = latitude p, lon = longitude p, spd = speed p * 3.6\<rparr>)
       (map fst (filter (\<lambda>(p, i). i mod 5 = 0) (zip rt [0 ..< length rt])))"

definition getAIAnalysis :: "RideStats \<Rightarrow> RoutePoint list \<Rightarrow> AIRequest" where
  "getAIAnalysis st rt =
     \<lparr>distanceKm = jsDiv (totalDistance st) (Num 1000),
      avgSpeedKmh = avgSpeed st * 3.6,
      maxSpeedKmh = maxSpeed st * 3.6,
      durationMinutes = of_int (duration st) / 60,
      elevationGainM = elevationGain st,
      sampledRoute = sampleRoute rt\<rparr>"

section \<open>App.tsx\<close>

text \<open>
  The component's state, its three mutable references, and the calls it makes to the
  browser and to the external model, recorded in the order they are made. Each handler
  is a function from the state before to the state after; what the environment supplies
  to a handler (the identifiers returned by \<open>watchPosition\<close> and \<open>setInterval\<close>, the
  clock, the position, the model's answer) is an argument. The wake lock and the effect
  that requests it again when the page becomes visible are not modelled.
\<close>

datatype effect =
  Alert string
| WatchPosition nat
| ClearWatch nat
| SetInterval nat
| ClearInterval nat
| GenerateContent AIRequest

record AppState =
  isRecording :: bool
  route :: "RoutePoint list"
  stats :: RideStats
  aiInsight :: "AIInsight option"
  nearbyStops :: "(string \<times> (string \<times> string) list) option"
  isLoadingAI :: bool
  watchIdRef :: "nat option"
  lastPointRef :: "RoutePoint option"
  timerRef :: "nat option"
  effects :: "effect list"

definition initialState :: AppState where
  "initialState =
     \<lparr>isRecording = False,
      route = [],
      stats = \<lparr>totalDistance = Num 0, avgSpeed = 0, maxSpeed = 0, duration = 0,
               startTime = None, elevationGain = 0\<rparr>,
      aiInsight = None,
      nearbyStops = None,
      isLoadingAI = False,
      watchIdRef = None,
      lastPointRef = None,
      timerRef = None,
      effects = []\<rparr>"

record GeolocationPosition =
  coords_latitude :: real
  coords_longitude :: real
  coords_speed :: "real option"
  coords_altitude :: "real option"
  position_timestamp :: nat

record StartEnv =
  geolocation :: bool
  now :: nat
  watchId :: nat
  timerId :: nat

text \<open>\<open>x || 0\<close> on a nullable finite number.\<close>

definition orZero :: "real option \<Rightarrow> real" where
  "orZero x = (case x of None \<Rightarrow> 0 | Some v \<Rightarrow> v)"

definition startRecording :: "StartEnv \<Rightarrow> AppState \<Rightarrow> AppState" where
  "startRecording env s =
     (if \<not> geolocation env
      then s\<lparr>effects := effects s @ [Alert ''Geolocation is not supported by your browser.'']\<rparr>
      else s\<lparr>isRecording := True,
             route := [],
             stats := \<lparr>totalDistance = Num 0, avgSpeed = 0, maxSpeed = 0, duration = 0,
                        startTime = Some (now env), elevationGain = 0\<rparr>,
             aiInsight := None,
             nearbyStops := None,
             watchIdRef := Some (watchId env),
             timerRef := Some (timerId env),
             effects := effects s @ [WatchPosition (watchId env), SetInterval (timerId env)]\<rparr>)"

text \<open>The success callback given to \<open>watchPosition\<close>.\<close>

definition newPoint :: "GeolocationPosition \<Rightarrow> RoutePoint" where
  "newPoint position =
     \<lparr>latitude = coords_latitude position,
      longitude = coords_longitude position,
      timestamp = position_timestamp position,
      speed = orZero (coords_speed position),
      altitude = coords_altitude position\<rparr>"

definition updateStats :: "RoutePoint \<Rightarrow> RoutePoint \<Rightarrow> RideStats \<Rightarrow> RideStats" where
  "updateStats lastPoint np prev =
     (let distance = calculateDistance lastPoint np;
          elev = orZero (altitude np) - orZero (altitude lastPoint);
          newDist = jsAdd (totalDistance prev) distance;
          newMaxSpd = max (maxSpeed prev) (speed np);
          newElev = (if elev > 0 then elevationGain prev + elev else elevationGain prev)
      in prev\<lparr>totalDistance := newDist, maxSpeed := newMaxSpd, elevationGain := newElev\<rparr>)"

definition onPosition :: "GeolocationPosition \<Rightarrow> AppState \<Rightarrow> AppState" where
  "onPosition position s =
     (let np = newPoint position;
          s1 = s\<lparr>route := route s @ [np]\<rparr>;
          s2 = (case lastPointRef s1 of
                  None \<Rightarrow> s1
                | Some lastPoint \<Rightarrow> s1\<lparr>stats := updateStats lastPoint np (stats s1)\<rparr>)
      in s2\<lparr>lastPointRef := Some np\<rparr>)"

text \<open>The callback given to \<open>setInterval\<close>.\<close>

definition onTick :: "AppState \<Rightarrow> AppState" where
  "onTick s = s\<lparr>stats := (stats s)\<lparr>duration := duration (stats s) + 1\<rparr>\<rparr>"

definition stopRecording :: "AppState \<Rightarrow> AppState" where
  "stopRecording s =
     (let s1 = (case watchIdRef s of
                  None \<Rightarrow> s
                | Some w \<Rightarrow> s\<lparr>watchIdRef := None, effects := effects s @ [ClearWatch w]\<rparr>);
          s2 = (case timerRef s1 of
                  None \<Rightarrow> s1
                | Some t \<Rightarrow>
                    if t = 0 then s1
                    else s1\<lparr>timerRef := None, effects := effects s1 @ [ClearInterval t]\<rparr>)
      in s2\<lparr>isRecording := False, lastPointRef := None\<rparr>)"

text \<open>
  The argument \<open>response\<close> is what the external call comes back with: an insight, or
  \<open>None\<close> when it throws.
\<close>

definition handleGetAIAnalysis :: "AIInsight option \<Rightarrow> AppState \<Rightarrow> AppState" where
  "handleGetAIAnalysis response s =
     (if length (route s) < 5
      then s\<lparr>effects := effects s @ [Alert ''Ride longer to get meaningful AI insights!'']\<rparr>
      else
        (let s1 = s\<lparr>isLoadingAI := True,
                     effects := effects s @ [GenerateContent (getAIAnalysis (stats s) (route s))]\<rparr>;
             s2 = (case response of
                     Some insight \<Rightarrow> s1\<lparr>aiInsight := Some insight\<rparr>
                   | None \<Rightarrow> s1\<lparr>effects := effects s1 @ [Alert ''Failed to generate AI insights.'']\<rparr>)
         in s2\<lparr>isLoadingAI := False\<rparr>))"

subsection \<open>Sequences of operations\<close>

datatype event =
  Start StartEnv
| Ingest GeolocationPosition
| Tick
| Stop
| GetAIAnalysis "AIInsight option"

fun step :: "AppState \<Rightarrow> event \<Rightarrow> AppState" where
  "step s (Start env) = startRecording env s"
| "step s (Ingest position) = onPosition position s"
| "step s Tick = onTick s"
| "step s Stop = stopRecording s"
| "step s (GetAIAnalysis response) = handleGetAIAnalysis response s"

definition run :: "AppState \<Rightarrow> event list \<Rightarrow> AppState" where
  "run s es = foldl step s es"

text \<open>
  The constant \<open>avgSpeedKmH\<close> that the page computes for its statistics card, before
  \<open>toFixed\<close>.
\<close>

definition avgSpeedKmH :: "RideStats \<Rightarrow> number" where
  "avgSpeedKmH st =
     (if duration st > 0
      then jsMul (jsDiv (totalDistance st) (Num (of_int (duration st)))) (Num 3.6)
      else Num 0)"

section \<open>Notions of the specification\<close>

text \<open>
  The sum of the distances between each sample and the next one, added to a value
  \<open>acc\<close> one after the other in the order of the samples, and the sum from 0.
\<close>

fun addConsecutiveDistances :: "number \<Rightarrow> RoutePoint list \<Rightarrow> number" where
  "addConsecutiveDistances acc (p # q # ps) =
     addConsecutiveDistances (jsAdd acc (calculateDistance p q)) (q # ps)"
| "addConsecutiveDistances acc _ = acc"

definition sumConsecutiveDistances :: "RoutePoint list \<Rightarrow> number" where
  "sumConsecutiveDistances ps = addConsecutiveDistances (Num 0) ps"

text \<open>The samples that a sequence of events ingests, in order.\<close>

fun samplesOf :: "event list \<Rightarrow> RoutePoint list" where
  "samplesOf [] = []"
| "samplesOf (Ingest position # es) = newPoint position # samplesOf es"
| "samplesOf (_ # es) = samplesOf es"

text \<open>The events of one recording session, between its start and its stop.\<close>

fun inSession :: "event \<Rightarrow> bool" where
  "inSession (Ingest _) = True"
| "inSession Tick = True"
| "inSession _ = False"

section \<open>Sample inputs\<close>

definition browser :: StartEnv where
  "browser = \<lparr>geolocation = True, now = 1700000000000, watchId = 1, timerId = 7\<rparr>"

definition gpsFix :: "real \<Rightarrow> real \<Rightarrow> real option \<Rightarrow> real option \<Rightarrow> GeolocationPosition" where
  "gpsFix la lo sp al =
     \<lparr>coords_latitude = la, coords_longitude = lo, coords_speed = sp,
      coords_altitude = al, position_timestamp = 1700000000000\<rparr>"

section \<open>The distance function\<close>

text \<open>
  The exact value of \<open>a\<close> lies between 0 and 1 for every pair of points: a value
  outside, and with it a distance that is \<open>NaN\<close>, can only come from rounding.
\<close>

lemma haversineA_alt:
  "haversineA p1 p2 =
     (1 - cos ((latitude p2 - latitude p1) * pi / 180)) / 2 +
     (cos ((latitude p1 - latitude p2) * pi / 180) +
      cos ((latitude p1 + latitude p2) * pi / 180)) / 2 *
     (sin ((longitude p2 - longitude p1) * pi / 360))\<^sup>2"
proof -
  define x where "x = latitude p1 * pi / 180"
  define y where "y = latitude p2 * pi / 180"
  define d where "d = (latitude p2 - latitude p1) * pi / 360"
  have prod: "cos x * cos y = (cos (x - y) + cos (x + y)) / 2"
    by (simp add: cos_diff cos_add)
  have half: "sin d * sin d = (1 - cos (2 * d)) / 2"
    by (simp add: cos_double_sin power2_eq_square)
  have xy: "x - y = (latitude p1 - latitude p2) * pi / 180"
    "x + y = (latitude p1 + latitude p2) * pi / 180"
    "2 * d = (latitude p2 - latitude p1) * pi / 180"
    by (simp_all add: x_def y_def d_def field_simps)
  have "haversineA p1 p2 =
      sin d * sin d + cos x * cos y * (sin ((longitude p2 - longitude p1) * pi / 360))\<^sup>2"
    by (simp add: haversineA_def Let_def x_def y_def d_def power2_eq_square)
  then show ?thesis
    by (simp only: prod half xy)
qed

lemma haversineA_range: "0 \<le> haversineA p1 p2 \<and> haversineA p1 p2 \<le> 1"
proof -
  define u where "u = cos ((latitude p2 - latitude p1) * pi / 180)"
  define v where "v = cos ((latitude p1 + latitude p2) * pi / 180)"
  define s where "s = (sin ((longitude p2 - longitude p1) * pi / 360))\<^sup>2"
  have u': "cos ((latitude p1 - latitude p2) * pi / 180) = u"
  proof -
    have "(latitude p1 - latitude p2) * pi / 180 = - ((latitude p2 - latitude p1) * pi / 180)"
      by (simp add: field_simps)
    then show ?thesis
      by (simp only: u_def cos_minus)
  qed
  have a: "haversineA p1 p2 = (1 - u) / 2 + (u + v) / 2 * s"
    by (simp only: haversineA_alt u' u_def v_def s_def)
  have ub: "- 1 \<le> u" "u \<le> 1" and vb: "- 1 \<le> v" "v \<le> 1"
    by (simp_all add: u_def v_def)
  have sb: "0 \<le> s" "s \<le> 1"
    by (simp_all add: s_def abs_square_le_1)
  have eq: "haversineA p1 p2 = 1 / 2 - (1 - s) * u / 2 + s * v / 2"
    by (simp add: a field_simps)
  have m1: "(1 - s) * u \<le> (1 - s) * 1" and m2: "(1 - s) * (- 1) \<le> (1 - s) * u"
    using sb ub by (intro mult_left_mono; simp)+
  have m3: "s * v \<le> s * 1" and m4: "s * (- 1) \<le> s * v"
    using sb vb by (intro mult_left_mono; simp)+
  show ?thesis
    using m1 m2 m3 m4 by (simp add: eq)
qed

lemma atan2_quadrant: "0 \<le> y \<Longrightarrow> 0 \<le> x \<Longrightarrow> 0 \<le> atan2 y x \<and> atan2 y x \<le> pi / 2"
proof -
  assume y: "0 \<le> y" and x: "0 \<le> x"
  show ?thesis
  proof (cases "0 < x")
    case True
    then have "0 \<le> y / x" using y by simp
    then have "0 \<le> arctan (y / x)" by simp
    moreover have "arctan (y / x) < pi / 2" by (rule arctan_ubound)
    ultimately show ?thesis using True by (simp add: atan2_def)
  next
    case False
    then have "x = 0" using x by simp
    then show ?thesis using y by (simp add: atan2_def)
  qed
qed

text \<open>
  A central angle that is a number is not negative, and so is a distance: the two square
  roots are numbers only when \<open>a\<close> lies between 0 and 1.
\<close>

lemma centralAngle_nonneg: "centralAngle a = Num c \<Longrightarrow> 0 \<le> c"
proof -
  assume c: "centralAngle a = Num c"
  have range: "0 \<le> a \<and> a \<le> 1"
  proof (rule ccontr)
    assume "\<not> (0 \<le> a \<and> a \<le> 1)"
    then have "centralAngle a = NaN"
      by (auto simp: centralAngle_def Math_sqrt_def)
    with c show False by simp
  qed
  then have "0 \<le> atan2 (sqrt a) (sqrt (1 - a))"
    using atan2_quadrant [of "sqrt a" "sqrt (1 - a)"] by simp
  moreover have "c = 2 * atan2 (sqrt a) (sqrt (1 - a))"
    using c range by (simp add: centralAngle_def Math_sqrt_def)
  ultimately show ?thesis by simp
qed

lemma calculateDistance_nonneg: "calculateDistance p1 p2 = Num d \<Longrightarrow> 0 \<le> d"
proof -
  assume d: "calculateDistance p1 p2 = Num d"
  show ?thesis
  proof (cases "centralAngle (haversineA p1 p2)")
    case NaN
    with d show ?thesis by (simp add: calculateDistance_def Let_def)
  next
    case (Num c)
    then have "0 \<le> c" by (rule centralAngle_nonneg)
    moreover have "d = R * c"
      using d Num by (simp add: calculateDistance_def Let_def)
    ultimately show ?thesis by (simp add: R_def)
  qed
qed

lemma atan2_sin_cos: "0 \<le> x \<Longrightarrow> x < pi / 2 \<Longrightarrow> atan2 (sin x) (cos x) = x"
proof -
  assume x: "0 \<le> x" "x < pi / 2"
  then have c: "0 < cos x" by (intro cos_gt_zero_pi) simp_all
  have "arctan (tan x) = x" using x by (intro arctan_tan) simp_all
  then show ?thesis using c by (simp add: atan2_def tan_def)
qed

lemma centralAngle_sin_sq:
  assumes "0 \<le> x" "x < pi / 2"
  shows "centralAngle (sin x * sin x) = Num (2 * x)"
proof -
  have s: "0 \<le> sin x" using assms by (intro sin_ge_zero) simp_all
  have c: "0 \<le> cos x" using assms by (intro cos_ge_zero) simp_all
  have sq: "1 - sin x * sin x = cos x * cos x"
    using sin_cos_squared_add [of x] by (simp add: power2_eq_square)
  then have "sqrt (1 - sin x * sin x) = cos x" using c by simp
  moreover have "sqrt (sin x * sin x) = sin x" using s by simp
  moreover have "\<not> 1 - sin x * sin x < 0" using sq by simp
  ultimately show ?thesis
    using assms by (simp add: centralAngle_def Math_sqrt_def atan2_sin_cos)
qed

text \<open>A thousandth of a degree of longitude on the equator is about 111.19 metres.\<close>

lemma calculateDistance_equator:
  "calculateDistance (newPoint (gpsFix 0 0 sp al)) (newPoint (gpsFix 0 (1 / 1000) sp' al')) =
     Num (6371 * pi / 180)"
proof -
  have a: "haversineA (newPoint (gpsFix 0 0 sp al)) (newPoint (gpsFix 0 (1 / 1000) sp' al')) =
      sin (pi / 360000) * sin (pi / 360000)"
    by (simp add: haversineA_def newPoint_def gpsFix_def)
  have "centralAngle (sin (pi / 360000) * sin (pi / 360000)) = Num (2 * (pi / 360000))"
    by (rule centralAngle_sin_sq) simp_all
  then show ?thesis
    by (simp add: calculateDistance_def a R_def)
qed

text \<open>
  C7: two points with the same latitude and the same longitude are at distance exactly 0.
\<close>

theorem calculateDistance_identical:
  "latitude p1 = latitude p2 \<Longrightarrow> longitude p1 = longitude p2 \<Longrightarrow>
   calculateDistance p1 p2 = Num 0"
  by (simp add: calculateDistance_def haversineA_def centralAngle_def Math_sqrt_def
      atan2_def R_def)

theorem calculateDistance_identical_witness:
  "calculateDistance
     \<lparr>latitude = 48.8566, longitude = 2.3522, timestamp = 0, speed = 3, altitude = None\<rparr>
     \<lparr>latitude = 48.8566, longitude = 2.3522, timestamp = 1000, speed = 0, altitude = Some 35\<rparr>
   = Num 0"
  using calculateDistance_identical
    [of "\<lparr>latitude = 48.8566, longitude = 2.3522, timestamp = 0, speed = 3, altitude = None\<rparr>"
        "\<lparr>latitude = 48.8566, longitude = 2.3522, timestamp = 1000, speed = 0,
          altitude = Some 35\<rparr>"]
  by simp

section \<open>The stored average speed\<close>

lemma step_avgSpeed: "avgSpeed (stats s) = 0 \<Longrightarrow> avgSpeed (stats (step s e)) = 0"
  by (cases e)
    (auto simp: startRecording_def onPosition_def updateStats_def onTick_def
      stopRecording_def handleGetAIAnalysis_def Let_def split: option.splits)

lemma run_avgSpeed: "avgSpeed (stats s) = 0 \<Longrightarrow> avgSpeed (stats (run s es)) = 0"
proof (induction es arbitrary: s)
  case Nil
  then show ?case by (simp add: run_def)
next
  case (Cons e es)
  have "run s (e # es) = run (step s e) es"
    by (simp add: run_def)
  then show ?case
    using Cons.IH [of "step s e"] step_avgSpeed [OF Cons.prems] by simp
qed

text \<open>
  C10: after any sequence of operations from the initial state the stored field
  \<open>avgSpeed\<close> is 0, and so is the average speed that an analysis request reports.
\<close>

theorem avgSpeed_always_zero:
  "avgSpeed (stats (run initialState es)) = 0 \<and>
   avgSpeedKmh (getAIAnalysis (stats (run initialState es)) (route (run initialState es))) = 0"
proof -
  have "avgSpeed (stats (run initialState es)) = 0"
    by (rule run_avgSpeed) (simp add: initialState_def)
  then show ?thesis
    by (simp add: getAIAnalysis_def)
qed

text \<open>
  C1 fails on the program at this input: after a start, two samples a thousandth of a
  degree apart on the equator and one tick, the distance is about 111.19 metres and the
  duration is 1 second, the page's own \<open>avgSpeedKmH\<close> is their quotient in km/h, and
  the stored \<open>avgSpeed\<close> is 0.
\<close>

theorem avgSpeed_stale_example:
  "avgSpeed (stats (run initialState
      [Start browser, Ingest (gpsFix 0 0 None (Some 0)),
       Ingest (gpsFix 0 (1 / 1000) (Some 2) (Some 10)), Tick])) = 0 \<and>
   totalDistance (stats (run initialState
      [Start browser, Ingest (gpsFix 0 0 None (Some 0)),
       Ingest (gpsFix 0 (1 / 1000) (Some 2) (Some 10)), Tick])) = Num (6371 * pi / 180) \<and>
   duration (stats (run initialState
      [Start browser, Ingest (gpsFix 0 0 None (Some 0)),
       Ingest (gpsFix 0 (1 / 1000) (Some 2) (Some 10)), Tick])) = 1 \<and>
   avgSpeedKmH (stats (run initialState
      [Start browser, Ingest (gpsFix 0 0 None (Some 0)),
       Ingest (gpsFix 0 (1 / 1000) (Some 2) (Some 10)), Tick])) =
     Num (6371 * pi / 180 * 3.6)"
  by (simp add: run_def startRecording_def browser_def onPosition_def updateStats_def
      onTick_def Let_def calculateDistance_equator initialState_def avgSpeedKmH_def)

section \<open>The position callback outside a recording\<close>

lemma stopRecording_lastPointRef: "lastPointRef (stopRecording s) = None"
  by (simp add: stopRecording_def Let_def split: option.splits)

lemma stopRecording_frame:
  "stats (stopRecording s) = stats s \<and> route (stopRecording s) = route s \<and>
   \<not> isRecording (stopRecording s)"
  by (simp add: stopRecording_def Let_def split: option.splits)

lemma onPosition_first:
  "lastPointRef s = None \<Longrightarrow>
   stats (onPosition position s) = stats s \<and>
   route (onPosition position s) = route s @ [newPoint position] \<and>
   lastPointRef (onPosition position s) = Some (newPoint position)"
  by (simp add: onPosition_def Let_def)

text \<open>
  C2, as the claim states it: a sample ingested while recording is not active leaves the
  route unchanged. It does not: the callback has no check of the recording state and
  appends the sample, in the initial state and after a stop alike.
\<close>

theorem onPosition_idle_appends:
  "\<not> isRecording initialState \<and>
   route (onPosition (gpsFix 0 0 None None) initialState) \<noteq> route initialState \<and>
   \<not> isRecording (stopRecording (startRecording browser initialState)) \<and>
   route (onPosition (gpsFix 0 0 None None)
            (stopRecording (startRecording browser initialState))) \<noteq>
     route (stopRecording (startRecording browser initialState))"
  by (simp add: initialState_def onPosition_def stopRecording_def startRecording_def
      browser_def Let_def)

text \<open>
  C2, amended: in the initial state and in every state that a stop returns, recording
  is not active and a sample handed to the position callback leaves the statistics
  (\<open>totalDistance\<close>, \<open>maxSpeed\<close> and \<open>elevationGain\<close> among them) unchanged; the
  sample is appended to the route and retained as the previous point.
\<close>

theorem onPosition_idle_stats:
  "s = initialState \<or> s = stopRecording s0 \<Longrightarrow>
   \<not> isRecording s \<and>
   stats (onPosition position s) = stats s \<and>
   route (onPosition position s) = route s @ [newPoint position] \<and>
   lastPointRef (onPosition position s) = Some (newPoint position)"
proof -
  assume "s = initialState \<or> s = stopRecording s0"
  then have "lastPointRef s = None \<and> \<not> isRecording s"
    using stopRecording_lastPointRef [of s0] stopRecording_frame [of s0]
    by (auto simp: initialState_def)
  then show ?thesis
    by (simp add: onPosition_first)
qed

theorem onPosition_idle_stats_witness:
  "totalDistance (stats (onPosition (gpsFix 0 0 None None)
      (stopRecording (run initialState
         [Start browser, Ingest (gpsFix 0 0 None (Some 0)),
          Ingest (gpsFix 0 (1 / 1000) (Some 2) (Some 10))])))) = Num (6371 * pi / 180) \<and>
   length (route (onPosition (gpsFix 0 0 None None)
      (stopRecording (run initialState
         [Start browser, Ingest (gpsFix 0 0 None (Some 0)),
          Ingest (gpsFix 0 (1 / 1000) (Some 2) (Some 10))])))) = 3"
proof -
  let ?s0 = "run initialState
      [Start browser, Ingest (gpsFix 0 0 None (Some 0)),
       Ingest (gpsFix 0 (1 / 1000) (Some 2) (Some 10))]"
  let ?p = "gpsFix 0 0 None None"
  have before: "totalDistance (stats ?s0) = Num (6371 * pi / 180)" "length (route ?s0) = 2"
    by (simp_all add: run_def startRecording_def browser_def onPosition_def updateStats_def
        Let_def calculateDistance_equator initialState_def)
  have "stats (onPosition ?p (stopRecording ?s0)) = stats (stopRecording ?s0)"
    "route (onPosition ?p (stopRecording ?s0)) = route (stopRecording ?s0) @ [newPoint ?p]"
    using onPosition_idle_stats [of "stopRecording ?s0" ?s0 ?p] by simp_all
  then show ?thesis
    using before stopRecording_frame [of ?s0] by simp
qed

section \<open>Starting a recording\<close>

text \<open>
  C3, as the claim states it: every start clears the retained previous point. A start
  issued while recording does not: the point of the ride before stays in
  \<open>lastPointRef\<close>, and the first sample of the new ride, 10 metres higher, adds 10 to
  \<open>elevationGain\<close>.
\<close>

theorem startRecording_keeps_lastPointRef:
  "lastPointRef (run initialState
      [Start browser, Ingest (gpsFix 0 0 None (Some 0)), Start browser]) =
     Some (newPoint (gpsFix 0 0 None (Some 0))) \<and>
   elevationGain (stats (run initialState
      [Start browser, Ingest (gpsFix 0 0 None (Some 0)), Start browser,
       Ingest (gpsFix 0 0 None (Some 10))])) = 10"
  by (simp add: run_def startRecording_def browser_def onPosition_def updateStats_def
      Let_def initialState_def newPoint_def gpsFix_def orZero_def)

text \<open>
  C3, amended: every start in a browser with geolocation clears the route, resets the
  statistics to zero with \<open>startTime\<close> the current time, and sets the recording flag.
  The previous point is empty initially and cleared by stop; when the start is issued
  with no previous point retained, none is retained after it and the first sample of
  the new ride leaves the statistics as the start set them.
\<close>

theorem startRecording_resets:
  "geolocation env \<Longrightarrow>
   route (startRecording env s) = [] \<and>
   stats (startRecording env s) =
     \<lparr>totalDistance = Num 0, avgSpeed = 0, maxSpeed = 0, duration = 0,
      startTime = Some (now env), elevationGain = 0\<rparr> \<and>
   isRecording (startRecording env s) \<and>
   lastPointRef initialState = None \<and>
   lastPointRef (stopRecording s) = None \<and>
   (lastPointRef s = None \<longrightarrow>
      lastPointRef (startRecording env s) = None \<and>
      stats (onPosition position (startRecording env s)) = stats (startRecording env s))"
  by (simp add: startRecording_def onPosition_def stopRecording_lastPointRef Let_def
      initialState_def)

theorem startRecording_resets_witness:
  "geolocation browser \<and>
   lastPointRef (stopRecording (run initialState
      [Start browser, Ingest (gpsFix 0 0 None (Some 0))])) = None \<and>
   route (startRecording browser (stopRecording (run initialState
      [Start browser, Ingest (gpsFix 0 0 None (Some 0))]))) = [] \<and>
   elevationGain (stats (onPosition (gpsFix 0 0 None (Some 10))
      (startRecording browser (stopRecording (run initialState
         [Start browser, Ingest (gpsFix 0 0 None (Some 0))]))))) = 0"
  using startRecording_resets
    [of browser
        "stopRecording (run initialState [Start browser, Ingest (gpsFix 0 0 None (Some 0))])"
        "gpsFix 0 0 None (Some 10)"]
    stopRecording_lastPointRef
    [of "run initialState [Start browser, Ingest (gpsFix 0 0 None (Some 0))]"]
  by (simp add: browser_def)

section \<open>Distance and elevation over a session\<close>

text \<open>
  The invariant of the loop over the events: the distance so far, with the distances
  along the retained previous point and the samples still to come added to it.
\<close>

lemma run_totalDistance:
  "list_all inSession es \<Longrightarrow>
   totalDistance (stats (run s es)) =
     addConsecutiveDistances (totalDistance (stats s))
       ((case lastPointRef s of None \<Rightarrow> [] | Some lp \<Rightarrow> [lp]) @ samplesOf es)"
proof (induction es arbitrary: s)
  case Nil
  then show ?case by (simp add: run_def split: option.splits)
next
  case (Cons e es)
  show ?case
  proof (cases e)
    case (Ingest position)
    have r: "run s (Ingest position # es) = run (onPosition position s) es"
      by (simp add: run_def)
    have ih: "totalDistance (stats (run (onPosition position s) es)) =
      addConsecutiveDistances (totalDistance (stats (onPosition position s)))
        (newPoint position # samplesOf es)"
      using Cons.IH [of "onPosition position s"] Cons.prems
      by (simp add: onPosition_def Let_def split: option.splits)
    show ?thesis
    proof (cases "lastPointRef s")
      case None
      then show ?thesis
        unfolding Ingest by (simp add: r ih) (simp add: onPosition_def Let_def)
    next
      case (Some lp)
      then show ?thesis
        unfolding Ingest
        by (simp add: r ih) (simp add: onPosition_def updateStats_def Let_def)
    qed
  next
    case Tick
    have r: "run s (Tick # es) = run (onTick s) es"
      by (simp add: run_def)
    show ?thesis
      unfolding Tick using Cons.IH [of "onTick s"] Cons.prems
      by (simp add: r) (simp add: onTick_def)
  qed (use Cons.prems in simp_all)
qed

lemma onPosition_totalDistance_mono:
  "totalDistance (stats s) = Num d \<Longrightarrow>
   totalDistance (stats (onPosition position s)) = Num d' \<Longrightarrow> d \<le> d'"
proof (cases "lastPointRef s")
  case None
  assume "totalDistance (stats s) = Num d"
    and "totalDistance (stats (onPosition position s)) = Num d'"
  with None show ?thesis by (simp add: onPosition_def Let_def)
next
  case (Some lp)
  assume t: "totalDistance (stats s) = Num d"
    and t': "totalDistance (stats (onPosition position s)) = Num d'"
  have sum: "jsAdd (Num d) (calculateDistance lp (newPoint position)) = Num d'"
    using Some t t' by (simp add: onPosition_def updateStats_def Let_def)
  show ?thesis
  proof (cases "calculateDistance lp (newPoint position)")
    case NaN
    with sum show ?thesis by simp
  next
    case (Num x)
    then have "0 \<le> x" by (rule calculateDistance_nonneg)
    with sum Num show ?thesis by simp
  qed
qed

text \<open>
  C5, as the claim states it: after the samples of any one recording session
  \<open>totalDistance\<close> is the sum of the distances between consecutive samples. It is not
  in a session that is started while the session before is still recording: the start
  keeps the previous point, and the only sample of the new session, which has no
  consecutive pair, adds the distance from the last point of the ride before.
\<close>

theorem totalDistance_restart_session:
  "totalDistance (stats (run
      (startRecording browser (run initialState
         [Start browser, Ingest (gpsFix 0 0 None (Some 0))]))
      [Ingest (gpsFix 0 (1 / 1000) (Some 2) (Some 10))])) = Num (6371 * pi / 180) \<and>
   sumConsecutiveDistances (samplesOf [Ingest (gpsFix 0 (1 / 1000) (Some 2) (Some 10))]) =
     Num 0 \<and>
   totalDistance (stats (run
      (startRecording browser (run initialState
         [Start browser, Ingest (gpsFix 0 0 None (Some 0))]))
      [Ingest (gpsFix 0 (1 / 1000) (Some 2) (Some 10))])) \<noteq>
     sumConsecutiveDistances (samplesOf [Ingest (gpsFix 0 (1 / 1000) (Some 2) (Some 10))])"
  by (simp add: run_def startRecording_def browser_def onPosition_def updateStats_def
      Let_def calculateDistance_equator initialState_def sumConsecutiveDistances_def)

text \<open>
  C5, amended: in a session that starts with no previous point retained, after any
  sequence of samples and ticks \<open>totalDistance\<close> is the sum of the distances between
  consecutive samples, added in the order of the samples, whether these distances are
  numbers or \<open>NaN\<close>. In every state, a sample does not decrease \<open>totalDistance\<close>
  when it is a number before and after.
\<close>

theorem totalDistance_fresh_session:
  "geolocation env \<Longrightarrow> lastPointRef s = None \<Longrightarrow> list_all inSession es \<Longrightarrow>
   totalDistance (stats (run (startRecording env s) es)) =
     sumConsecutiveDistances (samplesOf es) \<and>
   (totalDistance (stats s') = Num d \<longrightarrow>
    totalDistance (stats (onPosition position s')) = Num d' \<longrightarrow> d \<le> d')"
proof -
  assume env: "geolocation env" and last: "lastPointRef s = None"
    and es: "list_all inSession es"
  have start: "totalDistance (stats (startRecording env s)) = Num 0"
    "lastPointRef (startRecording env s) = None"
    using env last by (simp_all add: startRecording_def)
  have "totalDistance (stats (run (startRecording env s) es)) =
      sumConsecutiveDistances (samplesOf es)"
    using run_totalDistance [OF es, of "startRecording env s"]
    by (simp add: start sumConsecutiveDistances_def)
  then show ?thesis
    using onPosition_totalDistance_mono [of s' d position d'] by simp
qed

theorem totalDistance_fresh_session_witness:
  "geolocation browser \<and> lastPointRef initialState = None \<and>
   list_all inSession
     [Ingest (gpsFix 0 0 None (Some 0)), Tick,
      Ingest (gpsFix 0 (1 / 1000) (Some 2) (Some 10))] \<and>
   totalDistance (stats (run (startRecording browser initialState)
     [Ingest (gpsFix 0 0 None (Some 0)), Tick,
      Ingest (gpsFix 0 (1 / 1000) (Some 2) (Some 10))])) = Num (6371 * pi / 180) \<and>
   totalDistance (stats (run initialState
     [Start browser, Ingest (gpsFix 0 0 None (Some 0))])) = Num 0 \<and>
   totalDistance (stats (onPosition (gpsFix 0 (1 / 1000) (Some 2) (Some 10))
     (run initialState [Start browser, Ingest (gpsFix 0 0 None (Some 0))]))) =
     Num (6371 * pi / 180) \<and>
   (0 :: real) \<le> 6371 * pi / 180"
proof -
  let ?es = "[Ingest (gpsFix 0 0 None (Some 0)), Tick,
      Ingest (gpsFix 0 (1 / 1000) (Some 2) (Some 10))]"
  let ?s' = "run initialState [Start browser, Ingest (gpsFix 0 0 None (Some 0))]"
  let ?p = "gpsFix 0 (1 / 1000) (Some 2) (Some 10)"
  have hyps: "geolocation browser" "lastPointRef initialState = None" "list_all inSession ?es"
    by (simp_all add: browser_def initialState_def)
  have before: "totalDistance (stats ?s') = Num 0"
    and after: "totalDistance (stats (onPosition ?p ?s')) = Num (6371 * pi / 180)"
    by (simp_all add: run_def startRecording_def browser_def onPosition_def updateStats_def
        Let_def calculateDistance_equator initialState_def)
  note inst = totalDistance_fresh_session
    [OF hyps, where s' = ?s' and d = 0 and position = ?p and d' = "6371 * pi / 180"]
  have "totalDistance (stats (run (startRecording browser initialState) ?es)) =
      sumConsecutiveDistances (samplesOf ?es)"
    using inst by simp
  then have total: "totalDistance (stats (run (startRecording browser initialState) ?es)) =
      Num (6371 * pi / 180)"
    by (simp add: sumConsecutiveDistances_def calculateDistance_equator)
  have "(0 :: real) \<le> 6371 * pi / 180"
    using inst before after by blast
  then show ?thesis
    using hyps total before after by simp
qed

text \<open>
  C6: when a previous point is retained, the difference between the altitude of the new
  sample and that of the previous point, a missing altitude counting as 0, is added to
  \<open>elevationGain\<close> when it is positive and dropped otherwise; the first sample of a
  session adds nothing, and the altitudes 100, 95, 110, 108, 130 give a gain of 37.
\<close>

theorem elevationGain_positive_deltas:
  "(lastPointRef s = None \<longrightarrow>
      elevationGain (stats (onPosition position s)) = elevationGain (stats s)) \<and>
   (lastPointRef s = Some lp \<longrightarrow>
      elevationGain (stats (onPosition position s)) =
        (if orZero (coords_altitude position) - orZero (altitude lp) > 0
         then elevationGain (stats s) + (orZero (coords_altitude position) - orZero (altitude lp))
         else elevationGain (stats s))) \<and>
   (geolocation env \<longrightarrow> lastPointRef s' = None \<longrightarrow>
    map coords_altitude ps = [Some 100, Some 95, Some 110, Some 108, Some 130] \<longrightarrow>
      elevationGain (stats (run (startRecording env s') (map Ingest ps))) = 37)"
proof (intro conjI impI)
  assume "lastPointRef s = None"
  then show "elevationGain (stats (onPosition position s)) = elevationGain (stats s)"
    by (simp add: onPosition_def Let_def)
next
  assume "lastPointRef s = Some lp"
  then show "elevationGain (stats (onPosition position s)) =
      (if orZero (coords_altitude position) - orZero (altitude lp) > 0
       then elevationGain (stats s) + (orZero (coords_altitude position) - orZero (altitude lp))
       else elevationGain (stats s))"
    by (simp add: onPosition_def updateStats_def Let_def newPoint_def)
next
  assume env: "geolocation env" and last: "lastPointRef s' = None"
    and alts: "map coords_altitude ps = [Some 100, Some 95, Some 110, Some 108, Some 130]"
  obtain a b c d e where ps: "ps = [a, b, c, d, e]"
    and alt: "coords_altitude a = Some 100" "coords_altitude b = Some 95"
      "coords_altitude c = Some 110" "coords_altitude d = Some 108"
      "coords_altitude e = Some 130"
    using alts by (auto simp: map_eq_Cons_conv)
  show "elevationGain (stats (run (startRecording env s') (map Ingest ps))) = 37"
    using env last alt
    by (simp add: ps run_def startRecording_def onPosition_def updateStats_def Let_def
        newPoint_def orZero_def)
qed

theorem elevationGain_positive_deltas_witness:
  "elevationGain (stats (onPosition (gpsFix 0 0 None (Some 110))
     (run initialState [Start browser, Ingest (gpsFix 0 0 None (Some 95))]))) = 15 \<and>
   elevationGain (stats (onPosition (gpsFix 0 0 None None)
     (run initialState [Start browser, Ingest (gpsFix 0 0 None (Some 95))]))) = 0 \<and>
   elevationGain (stats (run (startRecording browser initialState)
     (map Ingest [gpsFix 0 0 None (Some 100), gpsFix 0 0 None (Some 95),
        gpsFix 0 0 None (Some 110), gpsFix 0 0 None (Some 108),
        gpsFix 0 0 None (Some 130)]))) = 37"
proof -
  let ?s = "run initialState [Start browser, Ingest (gpsFix 0 0 None (Some 95))]"
  let ?lp = "newPoint (gpsFix 0 0 None (Some 95))"
  let ?ps = "[gpsFix 0 0 None (Some 100), gpsFix 0 0 None (Some 95),
        gpsFix 0 0 None (Some 110), gpsFix 0 0 None (Some 108), gpsFix 0 0 None (Some 130)]"
  have s: "lastPointRef ?s = Some ?lp" "elevationGain (stats ?s) = 0"
    by (simp_all add: run_def startRecording_def browser_def onPosition_def Let_def
        initialState_def)
  have hyps: "geolocation browser" "lastPointRef initialState = None"
    "map coords_altitude ?ps = [Some 100, Some 95, Some 110, Some 108, Some 130]"
    by (simp_all add: browser_def initialState_def gpsFix_def)
  have "elevationGain (stats (onPosition (gpsFix 0 0 None (Some 110)) ?s)) = 15"
    using elevationGain_positive_deltas
      [where s = ?s and lp = ?lp and position = "gpsFix 0 0 None (Some 110)"] s
    by (simp add: gpsFix_def newPoint_def orZero_def)
  moreover have "elevationGain (stats (onPosition (gpsFix 0 0 None None) ?s)) = 0"
    using elevationGain_positive_deltas
      [where s = ?s and lp = ?lp and position = "gpsFix 0 0 None None"] s
    by (simp add: gpsFix_def newPoint_def orZero_def)
  moreover have "elevationGain (stats (run (startRecording browser initialState)
      (map Ingest ?ps))) = 37"
    using elevationGain_positive_deltas
      [where s = ?s and lp = ?lp and position = "gpsFix 0 0 None None" and env = browser
         and s' = initialState and ps = ?ps] hyps
    by blast
  ultimately show ?thesis
    by simp
qed

section \<open>The analysis request\<close>

text \<open>
  C9: with fewer than 5 points in the route the request for an analysis only raises the
  alert: no call to the external model is recorded, and the route, the statistics and
  everything else of the state stay as they were.
\<close>

theorem handleGetAIAnalysis_short_route:
  "length (route s) < 5 \<Longrightarrow>
   handleGetAIAnalysis response s =
     s\<lparr>effects := effects s @ [Alert ''Ride longer to get meaningful AI insights!'']\<rparr> \<and>
   route (handleGetAIAnalysis response s) = route s \<and>
   stats (handleGetAIAnalysis response s) = stats s"
  by (simp add: handleGetAIAnalysis_def)

theorem handleGetAIAnalysis_short_route_witness:
  "length (route (run initialState
      [Start browser, Ingest (gpsFix 0 0 None (Some 0)),
       Ingest (gpsFix 0 (1 / 1000) (Some 2) (Some 10)), Stop])) < 5 \<and>
   effects (handleGetAIAnalysis None (run initialState
      [Start browser, Ingest (gpsFix 0 0 None (Some 0)),
       Ingest (gpsFix 0 (1 / 1000) (Some 2) (Some 10)), Stop])) =
     [WatchPosition 1, SetInterval 7, ClearWatch 1, ClearInterval 7,
      Alert ''Ride longer to get meaningful AI insights!'']"
proof -
  let ?s = "run initialState
      [Start browser, Ingest (gpsFix 0 0 None (Some 0)),
       Ingest (gpsFix 0 (1 / 1000) (Some 2) (Some 10)), Stop]"
  have s: "length (route ?s) < 5"
    "effects ?s = [WatchPosition 1, SetInterval 7, ClearWatch 1, ClearInterval 7]"
    by (simp_all add: run_def startRecording_def browser_def onPosition_def updateStats_def
        stopRecording_def Let_def initialState_def)
  have "effects (handleGetAIAnalysis None ?s) =
      effects (?s\<lparr>effects := effects ?s @
        [Alert ''Ride longer to get meaningful AI insights!'']\<rparr>)"
    using handleGetAIAnalysis_short_route [OF s(1), of None] by simp
  then show ?thesis
    using s by simp
qed

section \<open>The duration formatter\<close>

lemma digitChar_zero: "k < 10 \<Longrightarrow> digitChar k = CHR ''0'' \<longleftrightarrow> k = 0"
proof -
  assume "k < 10"
  then have "k \<in> {0, 1, 2, 3, 4, 5, 6, 7, 8, 9}" by auto
  then show ?thesis by (auto simp: digitChar_def)
qed

lemma showNat_digit: "n < 10 \<Longrightarrow> showNat n = [digitChar n]"
  by (subst showNat.simps) simp

lemma showNat_more:
  "\<not> n < 10 \<Longrightarrow> showNat n = showNat (n div 10) @ [digitChar (n mod 10)]"
  by (subst showNat.simps) simp

lemma showInt_zero: "v < 10 \<Longrightarrow> showInt v = ''0'' \<longleftrightarrow> v = 0"
proof (cases "v < 0")
  case True
  then show ?thesis by (simp add: showInt_def)
next
  case False
  assume "v < 10"
  with False have small: "nat v < 10" by simp
  then have "showNat (nat v) = [digitChar (nat v)]"
    by (rule showNat_digit)
  with False small show ?thesis
    by (simp add: showInt_def digitChar_zero)
qed

lemma pad_zero: "pad v = Str ''00'' \<longleftrightarrow> v = 0"
  by (auto simp: pad_def showInt_zero)

lemma jsRem_nonneg: "0 \<le> a \<Longrightarrow> 0 < b \<Longrightarrow> jsRem a b = a mod b"
  by (cases "a = 0") (simp_all add: jsRem_def)

lemma formatDuration_layout:
  "formatDuration n =
     (if n div 3600 = 0 then [] else cellString (pad (n div 3600)) @ '':'') @
     cellString (pad (jsRem n 3600 div 60)) @ '':'' @ cellString (pad (jsRem n 60))"
  by (simp add: formatDuration_def Let_def pad_zero)

text \<open>
  C4, as the claim states it: 3661 seconds are rendered \<open>1:01:01\<close>, 61 seconds
  \<open>1:01\<close> and 9 seconds \<open>09\<close>. None of the three is what the formatter returns.
\<close>

theorem formatDuration_not_as_claimed:
  "formatDuration 3661 \<noteq> ''1:01:01'' \<and> formatDuration 61 \<noteq> ''1:01'' \<and>
   formatDuration 9 \<noteq> ''09''"
  by code_simp

text \<open>
  C4, amended: the formatter drops the hours when they are zero and nothing else; the
  minutes and the seconds are always rendered, and every rendered component below 10 is
  padded to two digits. 3661 seconds are \<open>01:01:01\<close>, 61 seconds \<open>01:01\<close> and
  9 seconds \<open>00:09\<close>.
\<close>

theorem formatDuration_padded:
  "(0 \<le> n \<longrightarrow>
      formatDuration n =
        (if n < 3600 then [] else cellString (pad (n div 3600)) @ '':'') @
        cellString (pad (n mod 3600 div 60)) @ '':'' @ cellString (pad (n mod 60))) \<and>
   formatDuration 3661 = ''01:01:01'' \<and> formatDuration 61 = ''01:01'' \<and>
   formatDuration 9 = ''00:09''"
proof -
  have "formatDuration 3661 = ''01:01:01''" "formatDuration 61 = ''01:01''"
    "formatDuration 9 = ''00:09''"
    by code_simp+
  moreover have "0 \<le> n \<Longrightarrow> n div 3600 = 0 \<longleftrightarrow> n < 3600"
    by (auto simp: zdiv_eq_0_iff)
  ultimately show ?thesis
    by (simp add: formatDuration_layout jsRem_nonneg)
qed

theorem formatDuration_padded_witness:
  "formatDuration 45 = ''00:45'' \<and> formatDuration 36000 = ''10:00:00''"
  using formatDuration_padded [of 45] formatDuration_padded [of 36000]
  by (simp add: pad_def cellString_def showInt_def showNat_digit showNat_more digitChar_def)

end
